theory Spec2Isabelle
  imports Main
begin

section \<open>RepliedMessageInfo: the reply reference of a message\<close>

text \<open>
  A shallow embedding of \<^verbatim>\<open>td/telegram/RepliedMessageInfo.cpp\<close>: the two constructors,
  \<^verbatim>\<open>need_reply_changed_warning\<close> and \<^verbatim>\<open>operator==\<close>.

  The file uses several classes that are declared elsewhere (\<^verbatim>\<open>MessageId\<close>,
  \<^verbatim>\<open>DialogId\<close>, \<^verbatim>\<open>MessageOrigin\<close>, the message content and the text helpers). Their
  members are parameters of the model, collected in one record of operations per class,
  so every theorem holds for whatever these members compute. The \<^verbatim>\<open>int32\<close> and
  \<^verbatim>\<open>int64\<close> values of the file are only compared with each other and with constants,
  never computed with, so they are modelled as \<^typ>\<open>int\<close>. A member \<^verbatim>\<open>x_\<close> of the
  source is written \<open>x'\<close>, since a name cannot end with an underscore here.
\<close>

type_synonym int32 = int
type_synonym int64 = int

subsection \<open>The classes declared outside the file\<close>

text \<open>
  \<^verbatim>\<open>MessageId\<close>: the default constructor, the constructor from a
  \<^verbatim>\<open>ServerMessageId\<close>, the constructor from a \<^verbatim>\<open>ScheduledServerMessageId\<close> and a
  date, the predicates and \<^verbatim>\<open>operator>\<close>. \<^verbatim>\<open>operator==\<close> is equality of values.
  The constructor of a scheduled id may reject its arguments and report that itself:
  \<open>MessageId_from_scheduled\<close> is the id it leaves and \<open>MessageId_from_scheduled_error\<close>
  says whether it reports an error.
\<close>

record 'm MessageId_ops =
  MessageId_default :: 'm
  MessageId_from_server :: "int32 \<Rightarrow> 'm"
  MessageId_from_scheduled :: "int32 \<Rightarrow> int32 \<Rightarrow> 'm"
  MessageId_from_scheduled_error :: "int32 \<Rightarrow> int32 \<Rightarrow> bool"
  MessageId_is_valid :: "'m \<Rightarrow> bool"
  MessageId_is_valid_scheduled :: "'m \<Rightarrow> bool"
  MessageId_is_scheduled :: "'m \<Rightarrow> bool"
  MessageId_is_scheduled_server :: "'m \<Rightarrow> bool"
  MessageId_get_scheduled_server_message_id :: "'m \<Rightarrow> int32"
  MessageId_greater :: "'m \<Rightarrow> 'm \<Rightarrow> bool"

datatype DialogType = DialogType_None | User | Chat | Channel | SecretChat

text \<open>
  \<^verbatim>\<open>DialogId\<close>: the default constructor, the constructor from a wire peer (of type
  \<open>'p\<close>), \<^verbatim>\<open>is_valid\<close> and \<^verbatim>\<open>get_type\<close>.
\<close>

record ('d, 'p) DialogId_ops =
  DialogId_default :: 'd
  DialogId_from_peer :: "'p \<Rightarrow> 'd"
  DialogId_is_valid :: "'d \<Rightarrow> bool"
  DialogId_get_type :: "'d \<Rightarrow> DialogType"

text \<open>
  The wire object \<^verbatim>\<open>reply_from_\<close> (a forward header): the two fields the file reads,
  and the rest of it, which only \<^verbatim>\<open>MessageOrigin::get_message_origin\<close> looks at.
\<close>

record 'f messageFwdHeader =
  date' :: int32
  channel_post' :: int32
  from' :: 'f

text \<open>
  \<^verbatim>\<open>MessageOrigin\<close>: the default constructor, \<^verbatim>\<open>is_empty\<close>,
  \<^verbatim>\<open>has_sender_signature\<close> and the static \<^verbatim>\<open>get_message_origin\<close>, whose
  \<^verbatim>\<open>Result\<close> is an option (\<open>None\<close> is the error).
\<close>

record ('o, 'f) MessageOrigin_ops =
  MessageOrigin_default :: 'o
  MessageOrigin_is_empty :: "'o \<Rightarrow> bool"
  MessageOrigin_has_sender_signature :: "'o \<Rightarrow> bool"
  get_message_origin :: "'f messageFwdHeader \<Rightarrow> 'o option"

text \<open>
  \<^verbatim>\<open>MessageContentType\<close>: the enumerators the file names (four of them only in
  comments); \<open>OtherContentType\<close> stands for every enumerator it does not name.
\<close>

datatype MessageContentType =
    Animation | Audio | Contact | Dice | Document | ExpiredPhoto | ExpiredVideo | Game
  | Giveaway | Invoice | LiveLocation | Location | Photo | Poll | Sticker | Story | Text
  | Unsupported | Venue | Video | VideoNote | VoiceNote | OtherContentType nat

datatype Status = Status_OK | Status_Error

fun is_error :: "Status \<Rightarrow> bool" where
  "is_error Status_OK = False"
| "is_error Status_Error = True"

text \<open>\<^verbatim>\<open>FormattedText\<close>; its member \<^verbatim>\<open>text\<close> is written \<open>text'\<close>.\<close>

record 'e FormattedText =
  text' :: string
  entities :: "'e list"

text \<open>
  What the file reaches through \<^verbatim>\<open>Td *td\<close> and the free functions it calls:
  \<^item> \<open>session_count\<close>: \<^verbatim>\<open>td->option_manager_->get_option_integer("session_count")\<close>;
  \<^item> \<open>MessageMedia_is_empty w\<close>: \<^verbatim>\<open>w->get_id() == telegram_api::messageMediaEmpty::ID\<close>;
  \<^item> \<open>get_message_content\<close>: the content built from a wire media and the owning chat
    (\<open>None\<close> is the null pointer);
  \<^item> \<open>MessageContent_get_type\<close>: \<^verbatim>\<open>content_->get_type()\<close>;
  \<^item> \<open>get_message_entities\<close>: the entities parsed from the wire entities;
  \<^item> \<open>fix_formatted_text\<close>, called with the flags \<^verbatim>\<open>true, true, true, true, false\<close>: it
    takes the text and the entities by reference, so the model returns its status
    together with the text and the entities as it leaves them;
  \<^item> \<open>clean_input_string\<close>: it takes the string by reference and returns a flag, so the
    model returns the flag together with the string as it leaves it;
  \<^item> \<open>compare_message_contents\<close>: called with both flags \<^verbatim>\<open>false\<close>, it returns
    (\<^verbatim>\<open>is_content_changed\<close>, \<^verbatim>\<open>need_update\<close>) as it leaves them.
\<close>

record ('d, 'e, 'c, 'w, 'x) Td =
  session_count :: int64
  MessageMedia_is_empty :: "'w \<Rightarrow> bool"
  get_message_content :: "'w \<Rightarrow> 'd \<Rightarrow> 'c option"
  MessageContent_get_type :: "'c \<Rightarrow> MessageContentType"
  get_message_entities :: "'x list \<Rightarrow> 'e list"
  fix_formatted_text :: "string \<Rightarrow> 'e list \<Rightarrow> Status \<times> string \<times> 'e list"
  clean_input_string :: "string \<Rightarrow> bool \<times> string"
  compare_message_contents :: "'c option \<Rightarrow> 'c option \<Rightarrow> bool \<times> bool"

subsection \<open>The wire header and the reply reference\<close>

text \<open>
  \<^verbatim>\<open>telegram_api::messageReplyHeader\<close>. Its flag \<^verbatim>\<open>quote_\<close> is called
  \<open>header_quote'\<close> here, since the class has a member \<^verbatim>\<open>quote_\<close> too.
\<close>

record ('p, 'f, 'w, 'x) messageReplyHeader =
  reply_to_scheduled' :: bool
  reply_to_msg_id' :: int32
  reply_to_peer_id' :: "'p option"
  reply_from' :: "'f messageFwdHeader option"
  reply_media' :: "'w option"
  header_quote' :: bool
  quote_text' :: string
  quote_entities' :: "'x list"

record ('m, 'd, 'o, 'e, 'c) RepliedMessageInfo =
  message_id' :: 'm
  dialog_id' :: 'd
  origin_date' :: int32
  origin' :: 'o
  quote' :: "'e FormattedText"
  is_quote_manual' :: bool
  content' :: "'c option"

text \<open>The object before a constructor body runs: every member default-initialised.\<close>

definition RepliedMessageInfo_default ::
  "'m MessageId_ops \<Rightarrow> ('d, 'p) DialogId_ops \<Rightarrow> ('o, 'f) MessageOrigin_ops \<Rightarrow>
   ('m, 'd, 'o, 'e, 'c) RepliedMessageInfo" where
  "RepliedMessageInfo_default M D Orig =
     \<lparr>message_id' = MessageId_default M, dialog_id' = DialogId_default D, origin_date' = 0,
      origin' = MessageOrigin_default Orig, quote' = \<lparr>text' = [], entities = []\<rparr>,
      is_quote_manual' = False, content' = None\<rparr>"

text \<open>
  A \<^verbatim>\<open>LOG(ERROR)\<close> of the file, named by what it reports; the comment gives its line.
  A constructor returns the list of those it passed, in order. The first one is not a
  line of the file: it is the error that the constructor of \<^verbatim>\<open>MessageId\<close> called in
  line 47 reports, when it reports one.
\<close>

datatype anomaly =
    InvalidScheduledMessageId      \<comment> \<open>line 47, by the constructor of \<^verbatim>\<open>MessageId\<close>\<close>
  | ScheduledReplyInOtherChat      \<comment> \<open>line 52\<close>
  | ScheduledReplyToItself         \<comment> \<open>line 58\<close>
  | ScheduledReplyInOrdinaryMessage \<comment> \<open>line 62\<close>
  | ScheduledReplyFromOtherChat    \<comment> \<open>line 66\<close>
  | InvalidReplyPeer               \<comment> \<open>line 76\<close>
  | InvalidReplyHeader             \<comment> \<open>line 85\<close>
  | ReplyToLaterMessage            \<comment> \<open>line 90\<close>
  | PeerWithoutMessage             \<comment> \<open>line 94\<close>
  | ChannelPostOrigin              \<comment> \<open>line 99\<close>
  | UnexpectedMediaType            \<comment> \<open>line 137\<close>

text \<open>The checks that end the process: \<^verbatim>\<open>CHECK\<close> and \<^verbatim>\<open>UNREACHABLE\<close>.\<close>

datatype fatal =
    CHECK_reply_header     \<comment> \<open>line 45\<close>
  | UNREACHABLE_dialog_type \<comment> \<open>line 36\<close>
  | CHECK_content          \<comment> \<open>line 111\<close>

subsection \<open>has_qts_messages (lines 26-39)\<close>

definition has_qts_messages ::
  "('d, 'e, 'c, 'w, 'x) Td \<Rightarrow> ('d, 'p) DialogId_ops \<Rightarrow> 'd \<Rightarrow> fatal + bool" where
  "has_qts_messages td D dialog_id =
     (case DialogId_get_type D dialog_id of
        User \<Rightarrow> Inr (session_count td > 1)
      | Chat \<Rightarrow> Inr (session_count td > 1)
      | Channel \<Rightarrow> Inr False
      | SecretChat \<Rightarrow> Inr False
      | DialogType_None \<Rightarrow> Inl UNREACHABLE_dialog_type)"

subsection \<open>The constructor from a wire header (lines 43-155)\<close>

text \<open>
  Lines 47-68, the header of a scheduled target. The result is \<^verbatim>\<open>message_id_\<close>,
  \<^verbatim>\<open>dialog_id_\<close> and the anomalies. \<^verbatim>\<open>dialog_id_\<close> is assigned in line 51 for the
  log line only and reset in line 55, so it ends default on every path. The anomalies
  start with the error of the constructor called in line 47, if it reports one.
\<close>

definition scheduled_reply_target ::
  "'m MessageId_ops \<Rightarrow> ('d, 'p) DialogId_ops \<Rightarrow> ('p, 'f, 'w, 'x) messageReplyHeader \<Rightarrow>
   'm \<Rightarrow> int32 \<Rightarrow> 'm \<times> 'd \<times> anomaly list" where
  "scheduled_reply_target M D reply_header message_id date =
     (let m0 = MessageId_from_scheduled M (reply_to_msg_id' reply_header) date;
          log0 = (if MessageId_from_scheduled_error M (reply_to_msg_id' reply_header) date
                  then [InvalidScheduledMessageId] else []);
          (m2, log2) =
            (if MessageId_is_valid_scheduled M message_id then
               let (m1, log1) =
                     (case reply_to_peer_id' reply_header of
                        Some reply_to_peer_id \<Rightarrow>
                          (MessageId_default M, log0 @ [ScheduledReplyInOtherChat])
                      | None \<Rightarrow> (m0, log0))
               in if message_id = m1 then (MessageId_default M, log1 @ [ScheduledReplyToItself])
                  else (m1, log1)
             else (MessageId_default M, log0 @ [ScheduledReplyInOrdinaryMessage]))
      in (m2, DialogId_default D,
          if reply_from' reply_header \<noteq> None \<or> reply_media' reply_header \<noteq> None
          then log2 @ [ScheduledReplyFromOtherChat] else log2))"

text \<open>
  Line 89, the last conjunct of the condition:
  \<^verbatim>\<open>(message_id_ > message_id && !has_qts_messages(td, dialog_id)) || message_id_ == message_id\<close>.
  \<^verbatim>\<open>has_qts_messages\<close> is called only when the first comparison holds.
\<close>

definition is_reply_to_later_or_same ::
  "'m MessageId_ops \<Rightarrow> ('d, 'p) DialogId_ops \<Rightarrow> ('d, 'e, 'c, 'w, 'x) Td \<Rightarrow>
   'm \<Rightarrow> 'd \<Rightarrow> 'm \<Rightarrow> fatal + bool" where
  "is_reply_to_later_or_same M D td m dialog_id message_id =
     (if MessageId_greater M m message_id then
        (case has_qts_messages td D dialog_id of
           Inl f \<Rightarrow> Inl f
         | Inr qts \<Rightarrow> Inr (if \<not> qts then True else m = message_id))
      else Inr (m = message_id))"

text \<open>Lines 70-95, the header of an ordinary target.\<close>

definition ordinary_reply_target ::
  "'m MessageId_ops \<Rightarrow> ('d, 'p) DialogId_ops \<Rightarrow> ('d, 'e, 'c, 'w, 'x) Td \<Rightarrow>
   ('p, 'f, 'w, 'x) messageReplyHeader \<Rightarrow> 'd \<Rightarrow> 'm \<Rightarrow> fatal + ('m \<times> 'd \<times> anomaly list)" where
  "ordinary_reply_target M D td reply_header dialog_id message_id =
     (if reply_to_msg_id' reply_header \<noteq> 0 then
        let m0 = MessageId_from_server M (reply_to_msg_id' reply_header);
            (m1, d1, log1) =
              (case reply_to_peer_id' reply_header of
                 None \<Rightarrow> (m0, DialogId_default D, [])
               | Some reply_to_peer_id \<Rightarrow>
                   let d0 = DialogId_from_peer D reply_to_peer_id;
                       (m, d, l) =
                         (if \<not> DialogId_is_valid D d0
                          then (MessageId_default M, DialogId_default D, [InvalidReplyPeer])
                          else (m0, d0, []))
                   in (m, if d = dialog_id then DialogId_default D else d, l))
        in if \<not> MessageId_is_valid M m1 then
             Inr (MessageId_default M, DialogId_default D, log1 @ [InvalidReplyHeader])
           else if \<not> MessageId_is_scheduled M message_id \<and> \<not> DialogId_is_valid D d1 then
             (case is_reply_to_later_or_same M D td m1 dialog_id message_id of
                Inl f \<Rightarrow> Inl f
              | Inr b \<Rightarrow>
                  if b then Inr (MessageId_default M, d1, log1 @ [ReplyToLaterMessage])
                  else Inr (m1, d1, log1))
           else Inr (m1, d1, log1)
      else if reply_to_peer_id' reply_header \<noteq> None then
        Inr (MessageId_default M, DialogId_default D, [PeerWithoutMessage])
      else Inr (MessageId_default M, DialogId_default D, []))"

text \<open>
  Lines 96-106: \<^verbatim>\<open>origin_date_\<close> and the anomalies. The result of
  \<^verbatim>\<open>get_message_origin\<close> is only tested for an error: no line of the file assigns
  \<^verbatim>\<open>origin_\<close>.
\<close>

definition reply_origin_date ::
  "('o, 'f) MessageOrigin_ops \<Rightarrow> ('p, 'f, 'w, 'x) messageReplyHeader \<Rightarrow> int32 \<times> anomaly list" where
  "reply_origin_date Orig reply_header =
     (case reply_from' reply_header of
        None \<Rightarrow> (0, [])
      | Some reply_from \<Rightarrow>
          if channel_post' reply_from \<noteq> 0 then (date' reply_from, [ChannelPostOrigin])
          else (case get_message_origin Orig reply_from of
                  None \<Rightarrow> (0, [])
                | Some r_reply_origin \<Rightarrow> (date' reply_from, [])))"

text \<open>Lines 112-139: the content types kept in a reply.\<close>

fun is_reply_content_type :: "MessageContentType \<Rightarrow> bool" where
  "is_reply_content_type Animation = True"
| "is_reply_content_type Audio = True"
| "is_reply_content_type Contact = True"
| "is_reply_content_type Dice = True"
| "is_reply_content_type Document = True"
| "is_reply_content_type Game = True"
| "is_reply_content_type Giveaway = True"
| "is_reply_content_type Invoice = True"
| "is_reply_content_type Location = True"
| "is_reply_content_type Photo = True"
| "is_reply_content_type Poll = True"
| "is_reply_content_type Sticker = True"
| "is_reply_content_type Story = True"
| "is_reply_content_type Unsupported = True"
| "is_reply_content_type Venue = True"
| "is_reply_content_type Video = True"
| "is_reply_content_type VideoNote = True"
| "is_reply_content_type VoiceNote = True"
| "is_reply_content_type ExpiredPhoto = False"
| "is_reply_content_type ExpiredVideo = False"
| "is_reply_content_type LiveLocation = False"
| "is_reply_content_type Text = False"
| "is_reply_content_type (OtherContentType n) = False"

text \<open>Lines 107-140: \<^verbatim>\<open>content_\<close> and the anomalies.\<close>

definition reply_content ::
  "('d, 'e, 'c, 'w, 'x) Td \<Rightarrow> ('p, 'f, 'w, 'x) messageReplyHeader \<Rightarrow> 'd \<Rightarrow>
   fatal + ('c option \<times> anomaly list)" where
  "reply_content td reply_header dialog_id =
     (case reply_media' reply_header of
        None \<Rightarrow> Inr (None, [])
      | Some reply_media \<Rightarrow>
          if MessageMedia_is_empty td reply_media then Inr (None, [])
          else (case get_message_content td reply_media dialog_id of
                  None \<Rightarrow> Inl CHECK_content
                | Some content \<Rightarrow>
                    if is_reply_content_type (MessageContent_get_type td content)
                    then Inr (Some content, [])
                    else Inr (None, [UnexpectedMediaType])))"

text \<open>Lines 142-154: \<^verbatim>\<open>quote_\<close> and \<^verbatim>\<open>is_quote_manual_\<close>.\<close>

definition reply_quote ::
  "('d, 'e, 'c, 'w, 'x) Td \<Rightarrow> ('p, 'f, 'w, 'x) messageReplyHeader \<Rightarrow> 'e FormattedText \<times> bool" where
  "reply_quote td reply_header =
     (if quote_text' reply_header \<noteq> [] then
        let entities0 = get_message_entities td (quote_entities' reply_header);
            (status, text1, entities1) = fix_formatted_text td (quote_text' reply_header) entities0
        in if is_error status then
             let (cleaned, text2) = clean_input_string td text1
             in (\<lparr>text' = (if \<not> cleaned then [] else text2), entities = []\<rparr>,
                 header_quote' reply_header)
           else (\<lparr>text' = text1, entities = entities1\<rparr>, header_quote' reply_header)
      else (\<lparr>text' = [], entities = []\<rparr>, False))"

text \<open>
  The constructor. The header is a pointer, so its argument is an option and \<open>None\<close>
  fails the \<^verbatim>\<open>CHECK\<close> of line 45. The result is the constructed object with the
  anomalies reported on the way.
\<close>

definition RepliedMessageInfo_from_header ::
  "'m MessageId_ops \<Rightarrow> ('d, 'p) DialogId_ops \<Rightarrow> ('o, 'f) MessageOrigin_ops \<Rightarrow>
   ('d, 'e, 'c, 'w, 'x) Td \<Rightarrow> ('p, 'f, 'w, 'x) messageReplyHeader option \<Rightarrow> 'd \<Rightarrow> 'm \<Rightarrow> int32 \<Rightarrow>
   fatal + (('m, 'd, 'o, 'e, 'c) RepliedMessageInfo \<times> anomaly list)" where
  "RepliedMessageInfo_from_header M D Orig td reply_header_ptr dialog_id message_id date =
     (case reply_header_ptr of
        None \<Rightarrow> Inl CHECK_reply_header
      | Some reply_header \<Rightarrow>
          let (q, manual) = reply_quote td reply_header in
          if reply_to_scheduled' reply_header then
            let (m, d, log) = scheduled_reply_target M D reply_header message_id date
            in Inr (\<lparr>message_id' = m, dialog_id' = d, origin_date' = 0,
                     origin' = MessageOrigin_default Orig, quote' = q,
                     is_quote_manual' = manual, content' = None\<rparr>, log)
          else
            (case ordinary_reply_target M D td reply_header dialog_id message_id of
               Inl f \<Rightarrow> Inl f
             | Inr (m, d, log1) \<Rightarrow>
                 let (od, log2) = reply_origin_date Orig reply_header in
                 (case reply_content td reply_header dialog_id of
                    Inl f \<Rightarrow> Inl f
                  | Inr (c, log3) \<Rightarrow>
                      Inr (\<lparr>message_id' = m, dialog_id' = d, origin_date' = od,
                           origin' = MessageOrigin_default Orig, quote' = q,
                           is_quote_manual' = manual, content' = c\<rparr>, log1 @ log2 @ log3))))"

subsection \<open>The constructor from a pending reply target (lines 157-162)\<close>

text \<open>\<^verbatim>\<open>MessageInputReplyTo\<close>: the member the constructor reads.\<close>

record 'm MessageInputReplyTo =
  input_message_id' :: 'm

definition RepliedMessageInfo_from_input ::
  "'m MessageId_ops \<Rightarrow> ('d, 'p) DialogId_ops \<Rightarrow> ('o, 'f) MessageOrigin_ops \<Rightarrow>
   'm MessageInputReplyTo \<Rightarrow> ('m, 'd, 'o, 'e, 'c) RepliedMessageInfo" where
  "RepliedMessageInfo_from_input M D Orig input_reply_to =
     (if \<not> MessageId_is_valid M (input_message_id' input_reply_to)
      then RepliedMessageInfo_default M D Orig
      else (RepliedMessageInfo_default M D Orig)
             \<lparr>message_id' := input_message_id' input_reply_to\<rparr>)"

subsection \<open>need_reply_changed_warning (lines 168-219)\<close>

definition need_reply_changed_warning ::
  "'m MessageId_ops \<Rightarrow> ('d, 'p) DialogId_ops \<Rightarrow> ('o, 'f) MessageOrigin_ops \<Rightarrow>
   ('m, 'd, 'o, 'e, 'c) RepliedMessageInfo \<Rightarrow> ('m, 'd, 'o, 'e, 'c) RepliedMessageInfo \<Rightarrow> 'm \<Rightarrow> bool \<Rightarrow>
   (('m, 'd, 'o, 'e, 'c) RepliedMessageInfo \<Rightarrow> bool) \<Rightarrow> bool" where
  "need_reply_changed_warning M D Orig old_info new_info old_top_thread_message_id is_yet_unsent
       is_reply_to_deleted_message =
     (if origin_date' old_info \<noteq> origin_date' new_info \<and> origin_date' old_info \<noteq> 0 \<and>
         origin_date' new_info \<noteq> 0 then True
      else if origin' old_info \<noteq> origin' new_info \<and>
              \<not> MessageOrigin_has_sender_signature Orig (origin' old_info) \<and>
              \<not> MessageOrigin_has_sender_signature Orig (origin' new_info) \<and>
              \<not> MessageOrigin_is_empty Orig (origin' old_info) \<and>
              \<not> MessageOrigin_is_empty Orig (origin' new_info) then True
      else if dialog_id' old_info \<noteq> dialog_id' new_info \<and>
              dialog_id' old_info \<noteq> DialogId_default D \<and>
              dialog_id' new_info \<noteq> DialogId_default D then True
      else if message_id' old_info = message_id' new_info \<and>
              dialog_id' old_info = dialog_id' new_info then
        (if message_id' old_info \<noteq> MessageId_default M then
           (if origin_date' old_info \<noteq> origin_date' new_info then True
            else if origin' old_info \<noteq> origin' new_info \<and>
                    \<not> MessageOrigin_has_sender_signature Orig (origin' old_info) \<and>
                    \<not> MessageOrigin_has_sender_signature Orig (origin' new_info) then True
            else False)
         else False)
      else if is_yet_unsent \<and> is_reply_to_deleted_message old_info \<and>
              message_id' new_info = MessageId_default M then False
      else if is_yet_unsent \<and> is_reply_to_deleted_message new_info \<and>
              message_id' old_info = MessageId_default M then False
      else if MessageId_is_valid_scheduled M (message_id' old_info) \<and>
              MessageId_is_scheduled_server M (message_id' old_info) \<and>
              MessageId_is_valid_scheduled M (message_id' new_info) \<and>
              MessageId_is_scheduled_server M (message_id' new_info) \<and>
              MessageId_get_scheduled_server_message_id M (message_id' old_info) =
                MessageId_get_scheduled_server_message_id M (message_id' new_info) then False
      else if is_yet_unsent \<and> old_top_thread_message_id = message_id' new_info \<and>
              dialog_id' new_info = DialogId_default D then False
      else True)"

subsection \<open>operator== (lines 275-288)\<close>

definition RepliedMessageInfo_equal ::
  "('d, 'e, 'c, 'w, 'x) Td \<Rightarrow> ('m, 'd, 'o, 'e, 'c) RepliedMessageInfo \<Rightarrow>
   ('m, 'd, 'o, 'e, 'c) RepliedMessageInfo \<Rightarrow> bool" where
  "RepliedMessageInfo_equal td lhs rhs =
     (if \<not> (message_id' lhs = message_id' rhs \<and> dialog_id' lhs = dialog_id' rhs \<and>
             origin_date' lhs = origin_date' rhs \<and> origin' lhs = origin' rhs \<and>
             quote' lhs = quote' rhs \<and> is_quote_manual' lhs = is_quote_manual' rhs)
      then False
      else
        let (is_content_changed, need_update) =
              compare_message_contents td (content' lhs) (content' rhs)
        in if need_update \<or> is_content_changed then False else True)"

subsection \<open>An instance of the classes declared outside the file\<close>

text \<open>
  Modelled from the spec: \<^verbatim>\<open>MessageId\<close>, which the file uses and does not declare. The
  spec's data model gives a message identity three shapes, no id, a regular id (a server
  id) and a scheduled id (a server id with a publish date); regular ids are ordered by
  their server ids. A scheduled target is built from the raw target id and the date, and
  when that id is not a valid scheduled id it is cleared to no id and an anomaly is
  reported: here the constructor does both. The spec does not say which ids are valid:
  here an id is valid when its server id is positive, and a scheduled one when its
  publish date is positive too.
\<close>

datatype MessageIdentity = NoMessage | Regular int32 | Scheduled int32 int32

fun MessageIdentity_is_valid :: "MessageIdentity \<Rightarrow> bool" where
  "MessageIdentity_is_valid (Regular s) = (0 < s)"
| "MessageIdentity_is_valid (Scheduled s d) = False"
| "MessageIdentity_is_valid NoMessage = False"

fun MessageIdentity_is_valid_scheduled :: "MessageIdentity \<Rightarrow> bool" where
  "MessageIdentity_is_valid_scheduled (Scheduled s d) = (0 < s \<and> 0 < d)"
| "MessageIdentity_is_valid_scheduled (Regular s) = False"
| "MessageIdentity_is_valid_scheduled NoMessage = False"

definition MessageIdentity_from_scheduled :: "int32 \<Rightarrow> int32 \<Rightarrow> MessageIdentity" where
  "MessageIdentity_from_scheduled s d =
     (if MessageIdentity_is_valid_scheduled (Scheduled s d) then Scheduled s d else NoMessage)"

definition MessageIdentity_from_scheduled_error :: "int32 \<Rightarrow> int32 \<Rightarrow> bool" where
  "MessageIdentity_from_scheduled_error s d = (\<not> MessageIdentity_is_valid_scheduled (Scheduled s d))"

fun MessageIdentity_is_scheduled :: "MessageIdentity \<Rightarrow> bool" where
  "MessageIdentity_is_scheduled (Scheduled s d) = True"
| "MessageIdentity_is_scheduled (Regular s) = False"
| "MessageIdentity_is_scheduled NoMessage = False"

fun MessageIdentity_server_id :: "MessageIdentity \<Rightarrow> int32" where
  "MessageIdentity_server_id (Scheduled s d) = s"
| "MessageIdentity_server_id (Regular s) = s"
| "MessageIdentity_server_id NoMessage = 0"

fun MessageIdentity_greater :: "MessageIdentity \<Rightarrow> MessageIdentity \<Rightarrow> bool" where
  "MessageIdentity_greater (Regular x) (Regular y) = (y < x)"
| "MessageIdentity_greater (Scheduled s d) b = False"
| "MessageIdentity_greater NoMessage b = False"
| "MessageIdentity_greater (Regular x) (Scheduled s d) = False"
| "MessageIdentity_greater (Regular x) NoMessage = False"

definition spec_MessageId :: "MessageIdentity MessageId_ops" where
  "spec_MessageId =
     \<lparr>MessageId_default = NoMessage,
      MessageId_from_server = Regular,
      MessageId_from_scheduled = MessageIdentity_from_scheduled,
      MessageId_from_scheduled_error = MessageIdentity_from_scheduled_error,
      MessageId_is_valid = MessageIdentity_is_valid,
      MessageId_is_valid_scheduled = MessageIdentity_is_valid_scheduled,
      MessageId_is_scheduled = MessageIdentity_is_scheduled,
      MessageId_is_scheduled_server = MessageIdentity_is_scheduled,
      MessageId_get_scheduled_server_message_id = MessageIdentity_server_id,
      MessageId_greater = MessageIdentity_greater\<rparr>"

text \<open>
  Modelled from the spec: \<^verbatim>\<open>DialogId\<close>, which the file uses and does not declare. A chat
  identity is absent or names a one-to-one chat, a basic group, a channel or a secret
  chat; a wire peer is read as the chat it names.
\<close>

datatype ChatIdentity = NoChat | OneToOne int64 | BasicGroup int64 | ChannelChat int64 | Secret int64

fun ChatIdentity_type :: "ChatIdentity \<Rightarrow> DialogType" where
  "ChatIdentity_type NoChat = DialogType_None"
| "ChatIdentity_type (OneToOne i) = User"
| "ChatIdentity_type (BasicGroup i) = Chat"
| "ChatIdentity_type (ChannelChat i) = Channel"
| "ChatIdentity_type (Secret i) = SecretChat"

definition spec_DialogId :: "(ChatIdentity, ChatIdentity) DialogId_ops" where
  "spec_DialogId =
     \<lparr>DialogId_default = NoChat,
      DialogId_from_peer = (\<lambda>peer. peer),
      DialogId_is_valid = (\<lambda>d. ChatIdentity_type d \<noteq> DialogType_None),
      DialogId_get_type = ChatIdentity_type\<rparr>"

text \<open>
  Modelled from the spec: \<^verbatim>\<open>MessageOrigin\<close>, which the file uses and does not declare.
  An origin attributes the original message to a sender and may carry a sender
  signature; it is empty when it has neither. Resolving a wire attribution fails when it
  names nobody.
\<close>

datatype Attribution = Attribution (sender: int64) (signature: string)

definition spec_MessageOrigin :: "(Attribution, Attribution) MessageOrigin_ops" where
  "spec_MessageOrigin =
     \<lparr>MessageOrigin_default = Attribution 0 [],
      MessageOrigin_is_empty = (\<lambda>a. sender a = 0 \<and> signature a = []),
      MessageOrigin_has_sender_signature = (\<lambda>a. signature a \<noteq> []),
      get_message_origin = (\<lambda>f. if sender (from' f) = 0 then None else Some (from' f))\<rparr>"

text \<open>
  Modelled from the spec: the capabilities reached through \<^verbatim>\<open>Td\<close>, none of which the
  file defines. A wire media is empty or names a content kind, and the content built
  from it is that kind; entities are offsets; the sanitization pass and the plain-text
  cleanup both fail on a text that holds the byte \<open>0xFF\<close> (it is not UTF-8), the pass
  also on repeated entities, and neither changes the text; two contents are changed when
  they differ. The argument is the number of active sessions.
\<close>

definition spec_Td ::
  "int64 \<Rightarrow> (ChatIdentity, nat, MessageContentType, MessageContentType option, nat) Td" where
  "spec_Td sessions =
     \<lparr>session_count = sessions,
      MessageMedia_is_empty = (\<lambda>w. w = None),
      get_message_content = (\<lambda>w d. w),
      MessageContent_get_type = (\<lambda>c. c),
      get_message_entities = (\<lambda>xs. xs),
      fix_formatted_text =
        (\<lambda>t es. (if CHR 0xFF \<in> set t \<or> \<not> distinct es then Status_Error else Status_OK, t, es)),
      clean_input_string = (\<lambda>t. (CHR 0xFF \<notin> set t, t)),
      compare_message_contents = (\<lambda>old_content new_content. (old_content \<noteq> new_content, False))\<rparr>"

text \<open>A wire header with nothing set, to build the concrete headers from.\<close>

definition empty_header ::
  "(ChatIdentity, Attribution, MessageContentType option, nat) messageReplyHeader" where
  "empty_header =
     \<lparr>reply_to_scheduled' = False, reply_to_msg_id' = 0, reply_to_peer_id' = None,
      reply_from' = None, reply_media' = None, header_quote' = False, quote_text' = [],
      quote_entities' = []\<rparr>"

text \<open>
  A reference with a target and nothing else, and the callback
  \<^verbatim>\<open>is_reply_to_deleted_message\<close> of a client that knows of no deleted message.
\<close>

definition plain_reply ::
  "MessageIdentity \<Rightarrow>
   (MessageIdentity, ChatIdentity, Attribution, nat, MessageContentType) RepliedMessageInfo" where
  "plain_reply m =
     \<lparr>message_id' = m, dialog_id' = NoChat, origin_date' = 0, origin' = Attribution 0 [],
      quote' = \<lparr>text' = [], entities = []\<rparr>, is_quote_manual' = False, content' = None\<rparr>"

definition no_deleted_reply ::
  "(MessageIdentity, ChatIdentity, Attribution, nat, MessageContentType) RepliedMessageInfo \<Rightarrow> bool" where
  "no_deleted_reply info = False"

section \<open>Properties\<close>

subsection \<open>When the constructor returns, and what it returns\<close>

lemma reply_content_returns:
  assumes "\<And>w. reply_media' h = Some w \<Longrightarrow> \<not> MessageMedia_is_empty td w \<Longrightarrow>
             get_message_content td w dialog_id \<noteq> None"
  shows "\<exists>c log. reply_content td h dialog_id = Inr (c, log)"
  using assms by (auto simp: reply_content_def split: option.splits)

lemma has_qts_messages_not_fatal:
  "DialogId_get_type D dialog_id \<noteq> DialogType_None \<Longrightarrow> has_qts_messages td D dialog_id \<noteq> Inl f"
  by (cases "DialogId_get_type D dialog_id") (simp_all add: has_qts_messages_def)

lemma is_reply_to_later_or_same_not_fatal:
  "DialogId_get_type D dialog_id \<noteq> DialogType_None \<Longrightarrow>
   is_reply_to_later_or_same M D td m dialog_id message_id \<noteq> Inl f"
  using has_qts_messages_not_fatal [of D dialog_id td]
  by (simp add: is_reply_to_later_or_same_def split: sum.splits)

lemma ordinary_reply_target_not_fatal:
  "DialogId_get_type D dialog_id \<noteq> DialogType_None \<Longrightarrow>
   ordinary_reply_target M D td h dialog_id message_id \<noteq> Inl f"
  using is_reply_to_later_or_same_not_fatal [of D dialog_id M td]
  by (simp add: ordinary_reply_target_def Let_def split: option.splits prod.splits sum.splits)

lemma from_header_scheduled:
  assumes "reply_to_scheduled' h"
  shows "RepliedMessageInfo_from_header M D Orig td (Some h) dialog_id message_id date =
         Inr (\<lparr>message_id' = fst (scheduled_reply_target M D h message_id date),
               dialog_id' = fst (snd (scheduled_reply_target M D h message_id date)),
               origin_date' = 0, origin' = MessageOrigin_default Orig,
               quote' = fst (reply_quote td h), is_quote_manual' = snd (reply_quote td h),
               content' = None\<rparr>,
              snd (snd (scheduled_reply_target M D h message_id date)))"
  using assms by (simp add: RepliedMessageInfo_from_header_def split: prod.splits)

lemma from_header_ordinary:
  assumes "\<not> reply_to_scheduled' h"
      and "ordinary_reply_target M D td h dialog_id message_id = Inr (m, d, log1)"
      and "reply_content td h dialog_id = Inr (c, log3)"
  shows "RepliedMessageInfo_from_header M D Orig td (Some h) dialog_id message_id date =
         Inr (\<lparr>message_id' = m, dialog_id' = d,
               origin_date' = fst (reply_origin_date Orig h), origin' = MessageOrigin_default Orig,
               quote' = fst (reply_quote td h), is_quote_manual' = snd (reply_quote td h),
               content' = c\<rparr>,
              log1 @ snd (reply_origin_date Orig h) @ log3)"
  using assms by (simp add: RepliedMessageInfo_from_header_def split: prod.splits)

lemma from_header_ordinary_cases:
  assumes "\<not> reply_to_scheduled' h"
      and "RepliedMessageInfo_from_header M D Orig td (Some h) dialog_id message_id date =
             Inr (info, log)"
  shows "\<exists>m d log1 c log3.
           ordinary_reply_target M D td h dialog_id message_id = Inr (m, d, log1) \<and>
           reply_content td h dialog_id = Inr (c, log3) \<and>
           info = \<lparr>message_id' = m, dialog_id' = d,
               origin_date' = fst (reply_origin_date Orig h), origin' = MessageOrigin_default Orig,
               quote' = fst (reply_quote td h), is_quote_manual' = snd (reply_quote td h),
               content' = c\<rparr> \<and>
           log = log1 @ snd (reply_origin_date Orig h) @ log3"
  using assms
  by (auto simp: RepliedMessageInfo_from_header_def split: prod.splits sum.splits)

text \<open>
  The constructor ends the process in three places only: a null header, an owning chat
  of no type when line 89 asks \<^verbatim>\<open>has_qts_messages\<close>, and a null content. With a header,
  an owning chat that has a type (or a scheduled target, which never asks) and a content
  for every non-empty media, it returns.
\<close>

lemma from_header_returns:
  assumes "reply_to_scheduled' h \<or> DialogId_get_type D dialog_id \<noteq> DialogType_None"
      and "\<And>w. reply_media' h = Some w \<Longrightarrow> \<not> MessageMedia_is_empty td w \<Longrightarrow>
             get_message_content td w dialog_id \<noteq> None"
  shows "\<exists>info log. RepliedMessageInfo_from_header M D Orig td (Some h) dialog_id message_id date =
           Inr (info, log)"
proof (cases "reply_to_scheduled' h")
  case True
  then show ?thesis by (simp add: from_header_scheduled)
next
  case False
  with assms(1) have "ordinary_reply_target M D td h dialog_id message_id \<noteq> Inl f" for f
    by (simp add: ordinary_reply_target_not_fatal)
  then obtain m d log1 where
    t: "ordinary_reply_target M D td h dialog_id message_id = Inr (m, d, log1)"
    by (cases "ordinary_reply_target M D td h dialog_id message_id") auto
  obtain c log3 where c: "reply_content td h dialog_id = Inr (c, log3)"
    using reply_content_returns [OF assms(2)] by blast
  show ?thesis by (simp add: from_header_ordinary [OF False t c])
qed

subsection \<open>A header without a target\<close>

text \<open>
  Claim C7. A header that is not for a scheduled target and whose target id is 0 gives
  a reference with the default (empty) \<^verbatim>\<open>message_id_\<close> and \<^verbatim>\<open>dialog_id_\<close>, whatever
  its other fields are; a peer it declares is only reported (line 94). The constructor
  returns as soon as the content of a non-empty media is not null (line 111).
\<close>

theorem zero_target_is_empty:
  assumes "\<not> reply_to_scheduled' h" and "reply_to_msg_id' h = 0"
      and "\<And>w. reply_media' h = Some w \<Longrightarrow> \<not> MessageMedia_is_empty td w \<Longrightarrow>
             get_message_content td w dialog_id \<noteq> None"
  shows "\<exists>info log.
           RepliedMessageInfo_from_header M D Orig td (Some h) dialog_id message_id date =
             Inr (info, log) \<and>
           message_id' info = MessageId_default M \<and> dialog_id' info = DialogId_default D \<and>
           (reply_to_peer_id' h \<noteq> None \<longrightarrow> PeerWithoutMessage \<in> set log)"
proof -
  obtain c log3 where c: "reply_content td h dialog_id = Inr (c, log3)"
    using reply_content_returns [OF assms(3)] by blast
  let ?log1 = "if reply_to_peer_id' h \<noteq> None then [PeerWithoutMessage] else []"
  have t: "ordinary_reply_target M D td h dialog_id message_id =
             Inr (MessageId_default M, DialogId_default D, ?log1)"
    using assms(2) by (simp add: ordinary_reply_target_def)
  show ?thesis
    unfolding from_header_ordinary [OF assms(1) t c] by simp
qed

theorem zero_target_is_empty_witness:
  "\<exists>info log.
     RepliedMessageInfo_from_header spec_MessageId spec_DialogId spec_MessageOrigin (spec_Td 1)
       (Some (empty_header\<lparr>reply_to_peer_id' := Some (ChannelChat 9),
                           reply_media' := Some (Some Photo), quote_text' := ''hi''\<rparr>))
       (OneToOne 4) (Regular 12) 1700000000 = Inr (info, log) \<and>
     message_id' info = NoMessage \<and> dialog_id' info = NoChat \<and> PeerWithoutMessage \<in> set log"
  using zero_target_is_empty
          [where h = "empty_header\<lparr>reply_to_peer_id' := Some (ChannelChat 9),
                                   reply_media' := Some (Some Photo), quote_text' := ''hi''\<rparr>"
             and td = "spec_Td 1" and dialog_id = "OneToOne 4" and M = spec_MessageId
             and D = spec_DialogId and Orig = spec_MessageOrigin and message_id = "Regular 12"
             and date = 1700000000]
  by (simp add: empty_header_def spec_Td_def spec_MessageId_def spec_DialogId_def)

subsection \<open>The guard against a reply to a later message or to the message itself\<close>

text \<open>
  Claim C1. Take a header of an ordinary target with a non-zero target id, in an owning
  message that is not scheduled, with no chat of its own: it declares no peer, or its
  peer is invalid or is the owning chat. If the target id is greater than the owning
  message's id while \<^verbatim>\<open>has_qts_messages\<close> returns false for the owning chat, or the target
  id is the owning message's id, the constructor returns a reference whose
  \<^verbatim>\<open>message_id_\<close> and \<^verbatim>\<open>dialog_id_\<close> are empty and reports an anomaly: the one of line
  90 when the target id is valid and no peer is declared. \<^verbatim>\<open>has_qts_messages\<close> returns
  true only for a user or basic group chat with more than one session. A
  default-constructed \<^verbatim>\<open>DialogId\<close> is taken to be invalid, and the content of a
  non-empty media not to be null.
\<close>

theorem later_or_same_reply_is_cleared:
  assumes "\<not> reply_to_scheduled' h" and "reply_to_msg_id' h \<noteq> 0"
      and "\<not> MessageId_is_scheduled M message_id"
      and "case reply_to_peer_id' h of
             None \<Rightarrow> True
           | Some p \<Rightarrow> \<not> DialogId_is_valid D (DialogId_from_peer D p) \<or>
                       DialogId_from_peer D p = dialog_id"
      and "has_qts_messages td D dialog_id = Inr qts"
      and "(MessageId_greater M (MessageId_from_server M (reply_to_msg_id' h)) message_id \<and> \<not> qts) \<or>
           MessageId_from_server M (reply_to_msg_id' h) = message_id"
      and "\<not> DialogId_is_valid D (DialogId_default D)"
      and "\<And>w. reply_media' h = Some w \<Longrightarrow> \<not> MessageMedia_is_empty td w \<Longrightarrow>
             get_message_content td w dialog_id \<noteq> None"
  shows "\<exists>info log.
           RepliedMessageInfo_from_header M D Orig td (Some h) dialog_id message_id date =
             Inr (info, log) \<and>
           message_id' info = MessageId_default M \<and> dialog_id' info = DialogId_default D \<and>
           (InvalidReplyPeer \<in> set log \<or> InvalidReplyHeader \<in> set log \<or>
            ReplyToLaterMessage \<in> set log) \<and>
           (MessageId_is_valid M (MessageId_from_server M (reply_to_msg_id' h)) \<and>
            reply_to_peer_id' h = None \<longrightarrow> ReplyToLaterMessage \<in> set log) \<and>
           (qts \<longleftrightarrow>
              (DialogId_get_type D dialog_id = User \<or> DialogId_get_type D dialog_id = Chat) \<and>
              1 < session_count td)"
proof -
  let ?target = "MessageId_from_server M (reply_to_msg_id' h)"
  obtain c log3 where c: "reply_content td h dialog_id = Inr (c, log3)"
    using reply_content_returns [OF assms(8)] by blast
  have later: "is_reply_to_later_or_same M D td ?target dialog_id message_id = Inr True"
    using assms(5,6) by (auto simp: is_reply_to_later_or_same_def)
  have "\<exists>log1. ordinary_reply_target M D td h dialog_id message_id =
                 Inr (MessageId_default M, DialogId_default D, log1) \<and>
               (InvalidReplyPeer \<in> set log1 \<or> InvalidReplyHeader \<in> set log1 \<or>
                ReplyToLaterMessage \<in> set log1) \<and>
               (MessageId_is_valid M ?target \<and> reply_to_peer_id' h = None \<longrightarrow>
                ReplyToLaterMessage \<in> set log1)"
    using assms(2,3,4,5,7) later
    by (auto simp: ordinary_reply_target_def Let_def is_reply_to_later_or_same_def
             split: option.splits sum.splits)
  then obtain log1 where
    t: "ordinary_reply_target M D td h dialog_id message_id =
          Inr (MessageId_default M, DialogId_default D, log1)"
    and l: "InvalidReplyPeer \<in> set log1 \<or> InvalidReplyHeader \<in> set log1 \<or>
            ReplyToLaterMessage \<in> set log1"
           "MessageId_is_valid M ?target \<and> reply_to_peer_id' h = None \<longrightarrow>
            ReplyToLaterMessage \<in> set log1"
    by blast
  have q: "qts \<longleftrightarrow>
             (DialogId_get_type D dialog_id = User \<or> DialogId_get_type D dialog_id = Chat) \<and>
             1 < session_count td"
    using assms(5) by (cases "DialogId_get_type D dialog_id") (auto simp: has_qts_messages_def)
  show ?thesis
    unfolding from_header_ordinary [OF assms(1) t c] using l q by auto
qed

theorem later_or_same_reply_is_cleared_witness:
  "\<exists>info log.
     RepliedMessageInfo_from_header spec_MessageId spec_DialogId spec_MessageOrigin (spec_Td 1)
       (Some (empty_header\<lparr>reply_to_msg_id' := 20\<rparr>)) (OneToOne 4) (Regular 12) 1700000000 =
       Inr (info, log) \<and>
     message_id' info = NoMessage \<and> dialog_id' info = NoChat \<and> ReplyToLaterMessage \<in> set log"
  using later_or_same_reply_is_cleared
          [where h = "empty_header\<lparr>reply_to_msg_id' := 20\<rparr>"
             and td = "spec_Td 1" and dialog_id = "OneToOne 4" and M = spec_MessageId
             and D = spec_DialogId and Orig = spec_MessageOrigin and message_id = "Regular 12"
             and date = 1700000000 and qts = False]
  by (auto simp: empty_header_def spec_Td_def spec_MessageId_def spec_DialogId_def
      has_qts_messages_def)

subsection \<open>The header of a scheduled target\<close>




subsection \<open>The quote\<close>

lemma from_header_quote:
  assumes "RepliedMessageInfo_from_header M D Orig td (Some h) dialog_id message_id date =
             Inr (info, log)"
  shows "quote' info = fst (reply_quote td h) \<and> is_quote_manual' info = snd (reply_quote td h)"
  using assms
  by (auto simp: RepliedMessageInfo_from_header_def split: prod.splits sum.splits if_splits)

text \<open>
  Claim C5, as amended. For a header with a non-empty quote text on which
  \<^verbatim>\<open>fix_formatted_text\<close> fails, the quote of the constructed reference has no entities,
  and its text is what \<^verbatim>\<open>clean_input_string\<close> makes of the text the failed pass left
  when the cleanup succeeds, and empty when the cleanup fails too;
  \<^verbatim>\<open>is_quote_manual_\<close> is the header's flag. The constructor returns for a scheduled
  target or an owning chat that has a type, the content of a non-empty media not being
  null.
\<close>

theorem failed_sanitization_falls_back_to_cleanup:
  assumes "quote_text' h \<noteq> []"
      and "fix_formatted_text td (quote_text' h) (get_message_entities td (quote_entities' h)) =
             (status, text1, entities1)"
      and "is_error status"
      and "reply_to_scheduled' h \<or> DialogId_get_type D dialog_id \<noteq> DialogType_None"
      and "\<And>w. reply_media' h = Some w \<Longrightarrow> \<not> MessageMedia_is_empty td w \<Longrightarrow>
             get_message_content td w dialog_id \<noteq> None"
  shows "\<exists>info log.
           RepliedMessageInfo_from_header M D Orig td (Some h) dialog_id message_id date =
             Inr (info, log) \<and>
           entities (quote' info) = [] \<and>
           text' (quote' info) =
             (if fst (clean_input_string td text1) then snd (clean_input_string td text1)
              else []) \<and>
           is_quote_manual' info = header_quote' h"
proof -
  obtain info log where
    r: "RepliedMessageInfo_from_header M D Orig td (Some h) dialog_id message_id date =
          Inr (info, log)"
    using from_header_returns [of h D dialog_id td M Orig message_id date] assms(4,5) by blast
  have "reply_quote td h =
          (\<lparr>text' = (if fst (clean_input_string td text1) then snd (clean_input_string td text1)
                      else []),
            entities = []\<rparr>, header_quote' h)"
    using assms(1,2,3) by (simp add: reply_quote_def split: prod.splits)
  with from_header_quote [OF r] r show ?thesis by simp
qed

theorem failed_sanitization_falls_back_to_cleanup_witness:
  "\<exists>info log.
     RepliedMessageInfo_from_header spec_MessageId spec_DialogId spec_MessageOrigin (spec_Td 1)
       (Some (empty_header\<lparr>reply_to_msg_id' := 5, quote_text' := ''hi'',
                           quote_entities' := [0, 0]\<rparr>))
       (OneToOne 4) (Regular 12) 1700000000 = Inr (info, log) \<and>
     quote' info = \<lparr>text' = ''hi'', entities = []\<rparr>"
  using failed_sanitization_falls_back_to_cleanup
          [where h = "empty_header\<lparr>reply_to_msg_id' := 5, quote_text' := ''hi'',
                                   quote_entities' := [0, 0]\<rparr>"
             and td = "spec_Td 1" and dialog_id = "OneToOne 4" and M = spec_MessageId
             and D = spec_DialogId and Orig = spec_MessageOrigin and message_id = "Regular 12"
             and date = 1700000000 and status = Status_Error and ?text1.0 = "''hi''"
             and ?entities1.0 = "[0, 0]"]
  by (auto simp add: empty_header_def spec_Td_def spec_DialogId_def)

text \<open>
  Claim C5 as the spec states it fails: when \<^verbatim>\<open>clean_input_string\<close> fails as well (line
  148), the quote text is cleared, so the reference carries no quote. Here the quote
  text is the single byte \<open>0xFF\<close>.
\<close>

theorem failed_sanitization_counterexample:
  "is_error (fst (fix_formatted_text (spec_Td 1) [CHR 0xFF]
                    (get_message_entities (spec_Td 1) []))) \<and>
   RepliedMessageInfo_from_header spec_MessageId spec_DialogId spec_MessageOrigin (spec_Td 1)
     (Some (empty_header\<lparr>reply_to_msg_id' := 5, header_quote' := True,
                         quote_text' := [CHR 0xFF]\<rparr>))
     (OneToOne 4) (Regular 12) 1700000000 =
   Inr (\<lparr>message_id' = Regular 5, dialog_id' = NoChat, origin_date' = 0,
         origin' = Attribution 0 [], quote' = \<lparr>text' = [], entities = []\<rparr>,
         is_quote_manual' = True, content' = None\<rparr>, [])"
  by (simp add: empty_header_def spec_Td_def spec_MessageId_def spec_DialogId_def
      spec_MessageOrigin_def RepliedMessageInfo_from_header_def ordinary_reply_target_def
      is_reply_to_later_or_same_def reply_quote_def reply_content_def reply_origin_date_def)

subsection \<open>No chat without a message\<close>

text \<open>
  Claim C6. A reference that either constructor produced and whose \<^verbatim>\<open>message_id_\<close> is
  empty has an empty \<^verbatim>\<open>dialog_id_\<close>. A default-constructed \<^verbatim>\<open>MessageId\<close> is taken to be
  invalid.
\<close>

theorem empty_message_id_has_no_chat:
  fixes info :: "('m, 'd, 'o, 'e, 'c) RepliedMessageInfo"
  assumes "\<not> MessageId_is_valid M (MessageId_default M)"
      and "RepliedMessageInfo_from_header M D Orig td reply_header dialog_id message_id date =
             Inr (info, log) \<or>
           info = RepliedMessageInfo_from_input M D Orig input_reply_to"
      and "message_id' info = MessageId_default M"
  shows "dialog_id' info = DialogId_default D"
  using assms(2)
proof
  assume r: "RepliedMessageInfo_from_header M D Orig td reply_header dialog_id message_id date =
               Inr (info, log)"
  then obtain h where h: "reply_header = Some h"
    by (cases reply_header) (simp_all add: RepliedMessageInfo_from_header_def)
  show ?thesis
  proof (cases "reply_to_scheduled' h")
    case True
    have "fst (snd (scheduled_reply_target M D h message_id date)) = DialogId_default D"
      by (simp add: scheduled_reply_target_def Let_def split: prod.splits)
    with True r h show ?thesis by (auto simp: from_header_scheduled)
  next
    case False
    from from_header_ordinary_cases [OF False r [unfolded h]] obtain m d log1 where
      t: "ordinary_reply_target M D td h dialog_id message_id = Inr (m, d, log1)"
      and i: "message_id' info = m" "dialog_id' info = d"
      by auto
    from t assms(1) have "m = MessageId_default M \<longrightarrow> d = DialogId_default D"
      by (auto simp: ordinary_reply_target_def Let_def
               split: option.splits if_splits sum.splits)
    with i assms(3) show ?thesis by simp
  qed
next
  assume "info = RepliedMessageInfo_from_input M D Orig input_reply_to"
  then show ?thesis
    by (simp add: RepliedMessageInfo_from_input_def RepliedMessageInfo_default_def)
qed

theorem empty_message_id_has_no_chat_witness:
  "RepliedMessageInfo_from_header spec_MessageId spec_DialogId spec_MessageOrigin (spec_Td 1)
     (Some (empty_header\<lparr>reply_to_msg_id' := 12, reply_to_peer_id' := Some (OneToOne 4)\<rparr>))
     (OneToOne 4) (Regular 12) 1700000000 =
     Inr (plain_reply NoMessage, [ReplyToLaterMessage]) \<and>
   message_id' (plain_reply NoMessage) = NoMessage \<and>
   dialog_id' (plain_reply NoMessage) = NoChat"
proof -
  have r: "RepliedMessageInfo_from_header spec_MessageId spec_DialogId spec_MessageOrigin
             (spec_Td 1)
             (Some (empty_header\<lparr>reply_to_msg_id' := 12, reply_to_peer_id' := Some (OneToOne 4)\<rparr>))
             (OneToOne 4) (Regular 12) 1700000000 =
           Inr (plain_reply NoMessage, [ReplyToLaterMessage])"
    by (simp add: empty_header_def spec_Td_def spec_MessageId_def spec_DialogId_def
        spec_MessageOrigin_def RepliedMessageInfo_from_header_def ordinary_reply_target_def
        is_reply_to_later_or_same_def reply_quote_def reply_content_def reply_origin_date_def
        plain_reply_def)
  have v: "\<not> MessageId_is_valid spec_MessageId (MessageId_default spec_MessageId)"
    by (simp add: spec_MessageId_def)
  have m: "message_id' (plain_reply NoMessage) = MessageId_default spec_MessageId"
    by (simp add: plain_reply_def spec_MessageId_def)
  from empty_message_id_has_no_chat [OF v disjI1 [OF r] m] r m
  show ?thesis by (simp add: spec_MessageId_def spec_DialogId_def)
qed

subsection \<open>The origin of the replied message\<close>

text \<open>
  Claim C10. For a header of an ordinary target that carries \<^verbatim>\<open>reply_from_\<close>, the
  constructed reference has the default (empty) origin. When the channel post of
  \<^verbatim>\<open>reply_from_\<close> is not 0, \<^verbatim>\<open>origin_date_\<close> is the date of \<^verbatim>\<open>reply_from_\<close> and the
  anomaly of line 99 is reported; when it is 0 and \<^verbatim>\<open>get_message_origin\<close> fails,
  \<^verbatim>\<open>origin_date_\<close> is reset to 0. The constructor returns for an owning chat that has a
  type, the content of a non-empty media not being null.
\<close>

theorem channel_post_origin_keeps_date:
  assumes "\<not> reply_to_scheduled' h" and "reply_from' h = Some reply_from"
      and "DialogId_get_type D dialog_id \<noteq> DialogType_None"
      and "\<And>w. reply_media' h = Some w \<Longrightarrow> \<not> MessageMedia_is_empty td w \<Longrightarrow>
             get_message_content td w dialog_id \<noteq> None"
  shows "\<exists>info log.
           RepliedMessageInfo_from_header M D Orig td (Some h) dialog_id message_id date =
             Inr (info, log) \<and>
           origin' info = MessageOrigin_default Orig \<and>
           (channel_post' reply_from \<noteq> 0 \<longrightarrow>
              origin_date' info = date' reply_from \<and> ChannelPostOrigin \<in> set log) \<and>
           (channel_post' reply_from = 0 \<and> get_message_origin Orig reply_from = None \<longrightarrow>
              origin_date' info = 0)"
proof -
  obtain info log where
    r: "RepliedMessageInfo_from_header M D Orig td (Some h) dialog_id message_id date =
          Inr (info, log)"
    using from_header_returns [of h D dialog_id td M Orig message_id date] assms(3,4) by blast
  from from_header_ordinary_cases [OF assms(1) r] obtain log1 log3 where
    i: "origin' info = MessageOrigin_default Orig"
       "origin_date' info = fst (reply_origin_date Orig h)"
       "log = log1 @ snd (reply_origin_date Orig h) @ log3"
    by auto
  have "channel_post' reply_from \<noteq> 0 \<Longrightarrow>
          reply_origin_date Orig h = (date' reply_from, [ChannelPostOrigin])"
    and "channel_post' reply_from = 0 \<Longrightarrow> get_message_origin Orig reply_from = None \<Longrightarrow>
          reply_origin_date Orig h = (0, [])"
    using assms(2) by (simp_all add: reply_origin_date_def)
  with r i show ?thesis by auto
qed

theorem channel_post_origin_keeps_date_witness:
  "\<exists>info log.
     RepliedMessageInfo_from_header spec_MessageId spec_DialogId spec_MessageOrigin (spec_Td 1)
       (Some (empty_header\<lparr>reply_to_msg_id' := 5,
          reply_from' := Some \<lparr>date' = 1600000000, channel_post' = 77,
                                from' = Attribution 3 []\<rparr>\<rparr>))
       (OneToOne 4) (Regular 12) 1700000000 = Inr (info, log) \<and>
     origin' info = Attribution 0 [] \<and> origin_date' info = 1600000000 \<and>
     ChannelPostOrigin \<in> set log"
  using channel_post_origin_keeps_date
          [where h = "empty_header\<lparr>reply_to_msg_id' := 5,
                  reply_from' := Some \<lparr>date' = 1600000000, channel_post' = 77,
                                        from' = Attribution 3 []\<rparr>\<rparr>"
             and reply_from = "\<lparr>date' = 1600000000, channel_post' = 77,
                                 from' = Attribution 3 []\<rparr>"
             and td = "spec_Td 1" and dialog_id = "OneToOne 4" and M = spec_MessageId
             and D = spec_DialogId and Orig = spec_MessageOrigin and message_id = "Regular 12"
             and date = 1700000000]
  by (simp add: empty_header_def spec_DialogId_def spec_MessageOrigin_def)

subsection \<open>The constructor from a pending reply target\<close>

text \<open>
  Claim C8. The reference built from a pending reply target has the target's message id
  as \<^verbatim>\<open>message_id_\<close> when that id is valid, and the empty id otherwise; every other
  member is empty in both cases: no chat, no origin and origin date, no quote, no
  content.
\<close>

theorem from_input_copies_valid_target:
  fixes info :: "('m, 'd, 'o, 'e, 'c) RepliedMessageInfo"
  assumes "info = RepliedMessageInfo_from_input M D Orig input_reply_to"
  shows "(MessageId_is_valid M (input_message_id' input_reply_to) \<longrightarrow>
            message_id' info = input_message_id' input_reply_to) \<and>
         (\<not> MessageId_is_valid M (input_message_id' input_reply_to) \<longrightarrow>
            message_id' info = MessageId_default M) \<and>
         dialog_id' info = DialogId_default D \<and> origin_date' info = 0 \<and>
         origin' info = MessageOrigin_default Orig \<and>
         quote' info = \<lparr>text' = [], entities = []\<rparr> \<and>
         is_quote_manual' info = False \<and> content' info = None"
  by (simp add: assms RepliedMessageInfo_from_input_def RepliedMessageInfo_default_def)

theorem from_input_copies_valid_target_witness:
  "message_id' (RepliedMessageInfo_from_input spec_MessageId spec_DialogId spec_MessageOrigin
      \<lparr>input_message_id' = Regular 10\<rparr>
        :: (MessageIdentity, ChatIdentity, Attribution, nat, MessageContentType)
             RepliedMessageInfo) =
     Regular 10 \<and>
   message_id' (RepliedMessageInfo_from_input spec_MessageId spec_DialogId spec_MessageOrigin
      \<lparr>input_message_id' = Regular (- 1)\<rparr>
        :: (MessageIdentity, ChatIdentity, Attribution, nat, MessageContentType)
             RepliedMessageInfo) =
     NoMessage"
  using from_input_copies_valid_target
          [where info = "RepliedMessageInfo_from_input spec_MessageId spec_DialogId
              spec_MessageOrigin \<lparr>input_message_id' = Regular 10\<rparr>
                :: (MessageIdentity, ChatIdentity, Attribution, nat, MessageContentType)
                     RepliedMessageInfo",
           OF refl]
        from_input_copies_valid_target
          [where info = "RepliedMessageInfo_from_input spec_MessageId spec_DialogId
              spec_MessageOrigin \<lparr>input_message_id' = Regular (- 1)\<rparr>
                :: (MessageIdentity, ChatIdentity, Attribution, nat, MessageContentType)
                     RepliedMessageInfo",
           OF refl]
  by (simp add: spec_MessageId_def)

subsection \<open>need_reply_changed_warning\<close>

text \<open>
  Claim C9. When the old and the new \<^verbatim>\<open>message_id_\<close> are valid scheduled ids of server
  messages with the same scheduled server message id, and the two ids differ (the
  publish date moved), and none of the first three tests of the function holds (lines
  171, 175 and 180: the origin dates, the origins, the chats), the function returns
  false.
\<close>

theorem schedule_date_change_is_benign:
  assumes "MessageId_is_valid_scheduled M (message_id' old_info)"
      and "MessageId_is_scheduled_server M (message_id' old_info)"
      and "MessageId_is_valid_scheduled M (message_id' new_info)"
      and "MessageId_is_scheduled_server M (message_id' new_info)"
      and "MessageId_get_scheduled_server_message_id M (message_id' old_info) =
           MessageId_get_scheduled_server_message_id M (message_id' new_info)"
      and "message_id' old_info \<noteq> message_id' new_info"
      and "\<not> (origin_date' old_info \<noteq> origin_date' new_info \<and> origin_date' old_info \<noteq> 0 \<and>
              origin_date' new_info \<noteq> 0)"
      and "\<not> (origin' old_info \<noteq> origin' new_info \<and>
              \<not> MessageOrigin_has_sender_signature Orig (origin' old_info) \<and>
              \<not> MessageOrigin_has_sender_signature Orig (origin' new_info) \<and>
              \<not> MessageOrigin_is_empty Orig (origin' old_info) \<and>
              \<not> MessageOrigin_is_empty Orig (origin' new_info))"
      and "\<not> (dialog_id' old_info \<noteq> dialog_id' new_info \<and>
              dialog_id' old_info \<noteq> DialogId_default D \<and>
              dialog_id' new_info \<noteq> DialogId_default D)"
  shows "need_reply_changed_warning M D Orig old_info new_info old_top_thread_message_id
           is_yet_unsent is_reply_to_deleted_message = False"
  using assms unfolding need_reply_changed_warning_def by auto

theorem schedule_date_change_is_benign_witness:
  "need_reply_changed_warning spec_MessageId spec_DialogId spec_MessageOrigin
     (plain_reply (Scheduled 7 1800000000)) (plain_reply (Scheduled 7 1800003600)) NoMessage
     False no_deleted_reply = False"
  using schedule_date_change_is_benign
          [where M = spec_MessageId and D = spec_DialogId and Orig = spec_MessageOrigin
             and old_info = "plain_reply (Scheduled 7 1800000000)"
             and new_info = "plain_reply (Scheduled 7 1800003600)"
             and old_top_thread_message_id = NoMessage and is_yet_unsent = False
             and is_reply_to_deleted_message = no_deleted_reply]
  by (simp add: plain_reply_def spec_MessageId_def)

text \<open>
  Claim C3, as amended. When the old and the new origin differ, neither is empty and
  neither has a sender signature, the function returns true. When one of them has a
  sender signature, the origins are not compared: with equal message ids, chats and
  origin dates the function returns false, whatever else differs between the origins.
\<close>

theorem unsigned_origin_change_is_meaningful:
  "(origin' old_info \<noteq> origin' new_info \<and>
    \<not> MessageOrigin_is_empty Orig (origin' old_info) \<and>
    \<not> MessageOrigin_is_empty Orig (origin' new_info) \<and>
    \<not> MessageOrigin_has_sender_signature Orig (origin' old_info) \<and>
    \<not> MessageOrigin_has_sender_signature Orig (origin' new_info) \<longrightarrow>
    need_reply_changed_warning M D Orig old_info new_info old_top_thread_message_id
      is_yet_unsent is_reply_to_deleted_message = True) \<and>
   ((MessageOrigin_has_sender_signature Orig (origin' old_info) \<or>
     MessageOrigin_has_sender_signature Orig (origin' new_info)) \<and>
    message_id' old_info = message_id' new_info \<and> dialog_id' old_info = dialog_id' new_info \<and>
    origin_date' old_info = origin_date' new_info \<longrightarrow>
    need_reply_changed_warning M D Orig old_info new_info old_top_thread_message_id
      is_yet_unsent is_reply_to_deleted_message = False)"
  unfolding need_reply_changed_warning_def by auto

theorem unsigned_origin_change_is_meaningful_witness:
  "need_reply_changed_warning spec_MessageId spec_DialogId spec_MessageOrigin
     ((plain_reply (Regular 10))\<lparr>origin' := Attribution 1 []\<rparr>)
     ((plain_reply (Regular 10))\<lparr>origin' := Attribution 2 []\<rparr>) NoMessage False
     no_deleted_reply = True \<and>
   need_reply_changed_warning spec_MessageId spec_DialogId spec_MessageOrigin
     ((plain_reply (Regular 10))\<lparr>origin' := Attribution 1 []\<rparr>)
     ((plain_reply (Regular 10))\<lparr>origin' := Attribution 1 ''Ann''\<rparr>) NoMessage False
     no_deleted_reply = False"
  using unsigned_origin_change_is_meaningful
          [where M = spec_MessageId and D = spec_DialogId and Orig = spec_MessageOrigin
             and old_info = "(plain_reply (Regular 10))\<lparr>origin' := Attribution 1 []\<rparr>"
             and new_info = "(plain_reply (Regular 10))\<lparr>origin' := Attribution 2 []\<rparr>"
             and old_top_thread_message_id = NoMessage and is_yet_unsent = False
             and is_reply_to_deleted_message = no_deleted_reply]
        unsigned_origin_change_is_meaningful
          [where M = spec_MessageId and D = spec_DialogId and Orig = spec_MessageOrigin
             and old_info = "(plain_reply (Regular 10))\<lparr>origin' := Attribution 1 []\<rparr>"
             and new_info = "(plain_reply (Regular 10))\<lparr>origin' := Attribution 1 ''Ann''\<rparr>"
             and old_top_thread_message_id = NoMessage and is_yet_unsent = False
             and is_reply_to_deleted_message = no_deleted_reply]
  by (simp add: plain_reply_def spec_MessageOrigin_def)

text \<open>
  Claim C3 as the spec states it fails: the origins below are not empty and differ in
  their senders, not only in a signature, yet the function returns false, because the
  new origin has a sender signature.
\<close>

theorem origin_change_counterexample:
  "origin' ((plain_reply (Regular 10))\<lparr>origin' := Attribution 1 []\<rparr>) \<noteq>
     origin' ((plain_reply (Regular 10))\<lparr>origin' := Attribution 2 ''Ann''\<rparr>) \<and>
   sender (Attribution 1 []) \<noteq> sender (Attribution 2 ''Ann'') \<and>
   \<not> MessageOrigin_is_empty spec_MessageOrigin (Attribution 1 []) \<and>
   \<not> MessageOrigin_is_empty spec_MessageOrigin (Attribution 2 ''Ann'') \<and>
   need_reply_changed_warning spec_MessageId spec_DialogId spec_MessageOrigin
     ((plain_reply (Regular 10))\<lparr>origin' := Attribution 1 []\<rparr>)
     ((plain_reply (Regular 10))\<lparr>origin' := Attribution 2 ''Ann''\<rparr>) NoMessage False
     no_deleted_reply = False"
  by (simp add: plain_reply_def spec_MessageOrigin_def spec_MessageId_def spec_DialogId_def
      need_reply_changed_warning_def)

subsection \<open>operator==\<close>

text \<open>
  Claim C2. Two references are equal exactly when their message ids, chats, origin
  dates, origins, quotes (text and entities) and manual-quote flags are equal and
  \<^verbatim>\<open>compare_message_contents\<close> leaves both \<^verbatim>\<open>need_update\<close> and
  \<^verbatim>\<open>is_content_changed\<close> false for their contents.
\<close>

theorem operator_equal_iff:
  "RepliedMessageInfo_equal td lhs rhs \<longleftrightarrow>
     message_id' lhs = message_id' rhs \<and> dialog_id' lhs = dialog_id' rhs \<and>
     origin_date' lhs = origin_date' rhs \<and> origin' lhs = origin' rhs \<and>
     text' (quote' lhs) = text' (quote' rhs) \<and> entities (quote' lhs) = entities (quote' rhs) \<and>
     is_quote_manual' lhs = is_quote_manual' rhs \<and>
     snd (compare_message_contents td (content' lhs) (content' rhs)) = False \<and>
     fst (compare_message_contents td (content' lhs) (content' rhs)) = False"
  by (auto simp: RepliedMessageInfo_equal_def split: prod.splits)

theorem operator_equal_iff_witness:
  "RepliedMessageInfo_equal (spec_Td 1) (plain_reply (Regular 10)) (plain_reply (Regular 10)) \<and>
   \<not> RepliedMessageInfo_equal (spec_Td 1) (plain_reply (Regular 10))
        ((plain_reply (Regular 10))\<lparr>content' := Some Photo\<rparr>)"
  using operator_equal_iff [of "spec_Td 1" "plain_reply (Regular 10)" "plain_reply (Regular 10)"]
        operator_equal_iff [of "spec_Td 1" "plain_reply (Regular 10)"
                               "(plain_reply (Regular 10))\<lparr>content' := Some Photo\<rparr>"]
  by (simp add: plain_reply_def spec_Td_def)

end
